theory Spec2Isabelle
  imports Complex_Main "HOL-Library.Sublist"
begin

chapter \<open>The model\<close>

section \<open>Text primitives of the host language\<close>

text \<open>
  A Python \<open>str\<close> is modelled as a \<open>string\<close> holding its UTF-8 bytes.  The operations
  below are the ones the collector and its serialisation use: decimal rendering of
  integers (\<open>str(n)\<close>, \<open>{n}\<close>), the grouped format \<open>{n:,}\<close>, the fixed format
  \<open>{x:.0f}\<close> (to the nearest whole number, ties to even, with the sign of \<open>x\<close>),
  \<open>sep.join(xs)\<close> and the substring test \<open>needle in text\<close>.
  A Python \<open>float\<close> is modelled by the real number it denotes, and float arithmetic by
  exact arithmetic.
\<close>

abbreviation NL :: char where "NL \<equiv> CHR 0x0A"
abbreviation DQ :: char where "DQ \<equiv> CHR 0x22"

definition digit_char :: "nat \<Rightarrow> char" where
  "digit_char d = ''0123456789'' ! (d mod 10)"

fun str_nat :: "nat \<Rightarrow> string" where
  "str_nat n = (if n < 10 then [digit_char n] else str_nat (n div 10) @ [digit_char (n mod 10)])"

declare str_nat.simps [simp del]

definition str_int :: "int \<Rightarrow> string" where
  "str_int n = (if n < 0 then CHR ''-'' # str_nat (nat (- n)) else str_nat (nat n))"

fun insert_commas :: "string \<Rightarrow> string" where
  "insert_commas s =
     (if length s \<le> 3 then s
      else insert_commas (take (length s - 3) s) @ CHR '','' # drop (length s - 3) s)"

declare insert_commas.simps [simp del]

definition fmt_commas :: "int \<Rightarrow> string" where
  "fmt_commas n =
     (if n < 0 then CHR ''-'' # insert_commas (str_nat (nat (- n)))
      else insert_commas (str_nat (nat n)))"

definition round_half_even :: "real \<Rightarrow> int" where
  "round_half_even x =
     (let f = \<lfloor>x\<rfloor>; d = x - of_int f
      in if d < 1 / 2 then f else if 1 / 2 < d then f + 1 else if even f then f else f + 1)"

definition fmt_f0 :: "real \<Rightarrow> string" where
  "fmt_f0 x = (if x < 0 then ''-'' else []) @ str_nat (nat (round_half_even \<bar>x\<bar>))"

fun py_join :: "string \<Rightarrow> string list \<Rightarrow> string" where
  "py_join sep [] = []"
| "py_join sep [x] = x"
| "py_join sep (x # y # ys) = x @ sep @ py_join sep (y # ys)"

fun py_in :: "string \<Rightarrow> string \<Rightarrow> bool" where
  "py_in needle [] = (needle = [])"
| "py_in needle (c # cs) = (prefix needle (c # cs) \<or> py_in needle cs)"

text \<open>
  \<open>str.lower()\<close> on ASCII letters; a byte outside \<open>A\<close>..\<open>Z\<close> is left as it is.  (Python
  also lowers letters outside ASCII; none of them is lowered to an ASCII capital.)
\<close>

definition lower_char :: "char \<Rightarrow> char" where
  "lower_char c =
     (case map_of (zip ''ABCDEFGHIJKLMNOPQRSTUVWXYZ'' ''abcdefghijklmnopqrstuvwxyz'') c of
        None \<Rightarrow> c | Some l \<Rightarrow> l)"

definition py_lower :: "string \<Rightarrow> string" where
  "py_lower s = map lower_char s"

section \<open>The snapshot and its records\<close>

record YouTubeVideo =
  title :: string
  video_id :: string
  channel_name :: string
  view_count :: int
  like_count :: int
  publish_date :: string
  url :: string

record TrendData =
  keyword :: string
  current_interest :: int
  average_interest :: real
  trend_direction :: string
  rising_queries :: "string list"

record CollectedData =
  topic :: string
  platform :: string
  collected_at :: string
  youtube_videos :: "YouTubeVideo list"
  trends :: "TrendData list"
  serp_questions :: "string list"
  errors :: "string list"

text \<open>\<open>bool(xs)\<close> of a list.\<close>

definition truthy :: "'a list \<Rightarrow> bool" where
  "truthy xs = (xs \<noteq> [])"

definition has_data :: "CollectedData \<Rightarrow> bool" where
  "has_data self =
     (truthy (youtube_videos self) \<or> truthy (trends self) \<or> truthy (serp_questions self))"

section \<open>Serialising the snapshot for the prompt\<close>

text \<open>
  \<open>CollectedData.to_prompt_context\<close>.  The method starts from the header and extends the
  local \<open>ctx\<close> with \<open>+=\<close>; every \<open>for\<close> loop is a left fold that carries \<open>ctx\<close>.
  The f-strings are written out as the concatenation of their literal parts and their
  formatted fields.
\<close>

definition video_entry :: "nat \<Rightarrow> YouTubeVideo \<Rightarrow> string" where
  "video_entry i v =
     [NL] @ str_nat i @ ''. '' @ [DQ] @ title v @ [DQ, NL]
     @ ''   Channel: '' @ channel_name v @ [NL]
     @ ''   Views: '' @ fmt_commas (view_count v) @ '' | Likes: '' @ fmt_commas (like_count v) @ [NL]
     @ ''   Published: '' @ publish_date v @ [NL]
     @ ''   URL: '' @ url v @ [NL]"

definition trend_entry :: "TrendData \<Rightarrow> string" where
  "trend_entry t =
     [NL] @ ''Keyword: '' @ [DQ] @ keyword t @ [DQ, NL]
     @ ''- Interest: '' @ str_int (current_interest t) @ ''/100 (avg: ''
       @ fmt_f0 (average_interest t) @ '')'' @ [NL]
     @ ''- Direction: '' @ trend_direction t @ [NL]
     @ ''- Rising queries: ''
       @ (if truthy (rising_queries t) then py_join '', '' (take 5 (rising_queries t)) else ''None'')
       @ [NL]"

definition to_prompt_context :: "CollectedData \<Rightarrow> string" where
  "to_prompt_context self =
     (let ctx = [NL] @ ''=== REAL DATA COLLECTED ==='' @ [NL]
                @ ''Topic: '' @ topic self @ [NL]
                @ ''Platform: '' @ platform self @ [NL]
                @ ''Collected: '' @ collected_at self @ [NL]
                @ [NL];
          ctx = (if truthy (youtube_videos self)
                 then foldl (\<lambda>ctx (i, v). ctx @ video_entry i v)
                        (ctx @ ''### TOP YOUTUBE VIDEOS (REAL):'' @ [NL])
                        (enumerate 1 (take 10 (youtube_videos self)))
                 else ctx @ ''### YOUTUBE: No data (API issue)'' @ [NL]);
          ctx = (if truthy (trends self)
                 then foldl (\<lambda>ctx t. ctx @ trend_entry t)
                        (ctx @ [NL] @ ''### GOOGLE TRENDS (REAL):'' @ [NL])
                        (trends self)
                 else ctx @ [NL] @ ''### GOOGLE TRENDS: No data'' @ [NL]);
          ctx = (if truthy (serp_questions self)
                 then foldl (\<lambda>ctx q. ctx @ ''- '' @ q @ [NL])
                        (ctx @ [NL] @ ''### PEOPLE ALSO ASK (REAL):'' @ [NL])
                        (take 10 (serp_questions self))
                 else ctx @ [NL] @ ''### SERP QUESTIONS: No data'' @ [NL]);
          ctx = (if truthy (errors self)
                 then foldl (\<lambda>ctx e. ctx @ ''- '' @ e @ [NL])
                        (ctx @ [NL] @ ''### DATA COLLECTION ISSUES:'' @ [NL])
                        (errors self)
                 else ctx)
      in ctx)"

subsection \<open>The layout the specification describes\<close>

text \<open>
  The specification's account of the same text: a header, then a video section, a trend
  section, a question section and an error section, in this order.  A section with no
  record is a marker line; the error section of an empty error list is empty.
\<close>

definition header_section :: "CollectedData \<Rightarrow> string" where
  "header_section d =
     [NL] @ ''=== REAL DATA COLLECTED ==='' @ [NL]
     @ ''Topic: '' @ topic d @ [NL]
     @ ''Platform: '' @ platform d @ [NL]
     @ ''Collected: '' @ collected_at d @ [NL]
     @ [NL]"

definition video_section :: "YouTubeVideo list \<Rightarrow> string" where
  "video_section vs =
     (if vs = [] then ''### YOUTUBE: No data (API issue)'' @ [NL]
      else ''### TOP YOUTUBE VIDEOS (REAL):'' @ [NL]
           @ concat (map (\<lambda>(i, v). video_entry i v) (enumerate 1 (take 10 vs))))"

definition trend_section :: "TrendData list \<Rightarrow> string" where
  "trend_section ts =
     (if ts = [] then [NL] @ ''### GOOGLE TRENDS: No data'' @ [NL]
      else [NL] @ ''### GOOGLE TRENDS (REAL):'' @ [NL] @ concat (map trend_entry ts))"

definition bullet :: "string \<Rightarrow> string" where
  "bullet s = ''- '' @ s @ [NL]"

definition question_section :: "string list \<Rightarrow> string" where
  "question_section qs =
     (if qs = [] then [NL] @ ''### SERP QUESTIONS: No data'' @ [NL]
      else [NL] @ ''### PEOPLE ALSO ASK (REAL):'' @ [NL] @ concat (map bullet (take 10 qs)))"

definition error_section :: "string list \<Rightarrow> string" where
  "error_section es =
     (if es = [] then []
      else [NL] @ ''### DATA COLLECTION ISSUES:'' @ [NL] @ concat (map bullet es))"

definition context_by_sections :: "CollectedData \<Rightarrow> string" where
  "context_by_sections d =
     header_section d @ video_section (youtube_videos d) @ trend_section (trends d)
     @ question_section (serp_questions d) @ error_section (errors d)"

subsection \<open>Numeric values of a text\<close>

text \<open>
  The numeric values that appear in a text: every maximal run of decimal digits, read as
  a natural number, where a comma inside or after a run is a thousands separator and is
  skipped.  \<open>scan_nums cur s\<close> reads \<open>s\<close> with \<open>cur\<close> the value of the run in progress.
\<close>

definition is_digit :: "char \<Rightarrow> bool" where
  "is_digit c = (c \<in> set ''0123456789'')"

definition digit_val :: "char \<Rightarrow> nat" where
  "digit_val c = of_char c - 48"

definition flush :: "nat option \<Rightarrow> nat list" where
  "flush cur = (case cur of None \<Rightarrow> [] | Some n \<Rightarrow> [n])"

definition push_digit :: "nat option \<Rightarrow> char \<Rightarrow> nat" where
  "push_digit cur c = 10 * (case cur of None \<Rightarrow> 0 | Some n \<Rightarrow> n) + digit_val c"

fun scan_nums :: "nat option \<Rightarrow> string \<Rightarrow> nat list" where
  "scan_nums cur [] = flush cur"
| "scan_nums cur (c # cs) =
     (if c = CHR '','' then scan_nums cur cs
      else if is_digit c then scan_nums (Some (push_digit cur c)) cs
      else flush cur @ scan_nums None cs)"

definition numbers_in :: "string \<Rightarrow> nat list" where
  "numbers_in s = scan_nums None s"

text \<open>
  The numeric values a snapshot holds: the magnitude of every integer field, the
  average interest when it is a whole number, and the numbers inside every text field.
\<close>

definition whole_magnitude :: "real \<Rightarrow> nat list" where
  "whole_magnitude x = (if of_int \<lfloor>\<bar>x\<bar>\<rfloor> = \<bar>x\<bar> then [nat \<lfloor>\<bar>x\<bar>\<rfloor>] else [])"

definition video_numbers :: "YouTubeVideo \<Rightarrow> nat list" where
  "video_numbers v =
     [nat \<bar>view_count v\<bar>, nat \<bar>like_count v\<bar>]
     @ numbers_in (title v) @ numbers_in (video_id v) @ numbers_in (channel_name v)
     @ numbers_in (publish_date v) @ numbers_in (url v)"

definition trend_numbers :: "TrendData \<Rightarrow> nat list" where
  "trend_numbers t =
     [nat \<bar>current_interest t\<bar>] @ whole_magnitude (average_interest t)
     @ numbers_in (keyword t) @ numbers_in (trend_direction t)
     @ concat (map numbers_in (rising_queries t))"

definition snapshot_numbers :: "CollectedData \<Rightarrow> nat list" where
  "snapshot_numbers d =
     numbers_in (topic d) @ numbers_in (platform d) @ numbers_in (collected_at d)
     @ concat (map video_numbers (youtube_videos d))
     @ concat (map trend_numbers (trends d))
     @ concat (map numbers_in (serp_questions d))
     @ concat (map numbers_in (errors d))"

text \<open>The grounding property as the specification words it.\<close>

definition grounded :: "CollectedData \<Rightarrow> bool" where
  "grounded d = list_all (\<lambda>k. k \<in> set (snapshot_numbers d)) (numbers_in (to_prompt_context d))"

definition rounded_average_snapshot :: CollectedData where
  "rounded_average_snapshot =
     \<lparr>topic = ''t'', platform = ''p'', collected_at = ''c'', youtube_videos = [],
      trends = [\<lparr>keyword = ''k'', current_interest = 80, average_interest = 248 / 5,
                 trend_direction = ''d'', rising_queries = []\<rparr>],
      serp_questions = [], errors = []\<rparr>"

text \<open>
  A separator is a character that ends a run of digits; a text that is empty or starts
  with a separator cannot continue a number of the text before it.
\<close>

definition is_sep :: "char \<Rightarrow> bool" where
  "is_sep c = (\<not> is_digit c \<and> c \<noteq> CHR '','')"

definition sep_start :: "string \<Rightarrow> bool" where
  "sep_start s = (case s of [] \<Rightarrow> True | c # _ \<Rightarrow> is_sep c)"

text \<open>A snapshot with questions only, after two providers failed.\<close>

definition partial_snapshot :: CollectedData where
  "partial_snapshot =
     \<lparr>topic = ''espresso'', platform = ''youtube'', collected_at = ''2024-05-01 10:00:00'',
      youtube_videos = [], trends = [],
      serp_questions = [''What is espresso?''],
      errors = [''YOUTUBE_API_KEY not set'', ''pytrends not installed (pip install pytrends)'']\<rparr>"

section \<open>Trend direction\<close>

text \<open>
  The three labels of \<open>_fetch_trends\<close>, each an emoji followed by a word, as UTF-8 bytes,
  and the comparison of the current interest with the average of the window.
\<close>

definition RISING :: string where
  "RISING = [CHR 0xF0, CHR 0x9F, CHR 0x93, CHR 0x88] @ '' RISING''"

definition DECLINING :: string where
  "DECLINING = [CHR 0xF0, CHR 0x9F, CHR 0x93, CHR 0x89] @ '' DECLINING''"

definition STABLE :: string where
  "STABLE = [CHR 0xE2, CHR 0x9E, CHR 0xA1, CHR 0xEF, CHR 0xB8, CHR 0x8F] @ '' STABLE''"

definition compute_direction :: "int \<Rightarrow> real \<Rightarrow> string" where
  "compute_direction current avg =
     (if of_int current > avg * 1.1 then RISING
      else if of_int current < avg * 0.9 then DECLINING
      else STABLE)"

subsection \<open>The comparison in binary64 arithmetic\<close>

text \<open>
  The products of the comparison as the interpreter computes them: \<open>1.1\<close> and \<open>0.9\<close>
  are the nearest doubles, and a product is rounded to the nearest double, ties to even.
  \<open>ulp n u x\<close> looks for the unit in the last place of a positive \<open>x\<close>, the power of
  two \<open>u\<close> with \<open>2^52 * u \<le> x < 2^53 * u\<close>, halving or doubling \<open>u\<close> at most \<open>n\<close>
  times; from 1, 2100 steps reach every magnitude of the normal range.  Overflow and
  subnormal numbers are outside this model.
\<close>

fun ulp :: "nat \<Rightarrow> real \<Rightarrow> real \<Rightarrow> real" where
  "ulp 0 u x = u"
| "ulp (Suc n) u x =
     (if x < 2 ^ 52 * u then ulp n (u / 2) x
      else if 2 ^ 53 * u \<le> x then ulp n (2 * u) x
      else u)"

definition round_to :: "real \<Rightarrow> real \<Rightarrow> real" where
  "round_to u x = of_int (round_half_even (x / u)) * u"

definition binary64 :: "real \<Rightarrow> real" where
  "binary64 x =
     (if x = 0 then 0
      else if x < 0 then - round_to (ulp 2100 1 (- x)) (- x)
      else round_to (ulp 2100 1 x) x)"

definition compute_direction_binary64 :: "int \<Rightarrow> real \<Rightarrow> string" where
  "compute_direction_binary64 current avg =
     (if of_int current > binary64 (avg * binary64 1.1) then RISING
      else if of_int current < binary64 (avg * binary64 0.9) then DECLINING
      else STABLE)"

section \<open>The error handler of the routes\<close>

text \<open>
  \<open>handle_crew_error\<close> of the agent routes; its argument is \<open>str(error)\<close>.
\<close>

record HTTPException =
  status_code :: nat
  detail :: string

definition handle_crew_error :: "string \<Rightarrow> HTTPException" where
  "handle_crew_error error_str =
     (if py_in ''authentication_error'' error_str \<or> py_in ''invalid x-api-key'' error_str
         \<or> py_in ''401'' error_str
      then \<lparr>status_code = 503,
            detail = ''LLM service authentication failed. Please check ANTHROPIC_API_KEY configuration.''\<rparr>
      else if py_in ''ANTHROPIC_API_KEY is required'' error_str
              \<or> py_in ''API key'' (py_lower error_str)
      then \<lparr>status_code = 503,
            detail = ''LLM API key not configured. Please set ANTHROPIC_API_KEY environment variable.''\<rparr>
      else \<lparr>status_code = 500,
            detail = ''An error occurred while processing your request. Please check the service configuration.''\<rparr>)"

section \<open>The engagement-rate estimator\<close>


definition key_set :: "string option \<Rightarrow> bool" where
  "key_set k = (case k of None \<Rightarrow> False | Some s \<Rightarrow> s \<noteq> [])"













section \<open>Decoded JSON and the operations used on it\<close>

text \<open>
  What \<open>resp.json()\<close> returns: \<open>None\<close>, a bool, an int, a str, a list or a dict (its
  items in order, each key once; a lookup takes the first entry of a key).  Numbers with
  a fraction are outside the model.  An operation that raises in Python returns \<open>Inl\<close>
  of the exception; the wording of the messages follows CPython 3.11.
\<close>

datatype json =
    JNull
  | JBool bool
  | JInt int
  | JStr string
  | JArr "json list"
  | JObj "(string \<times> json) list"

datatype exn =
    KeyError string
  | TypeError string
  | AttributeError string
  | ValueError string
  | IndexError string
  | RequestError string

definition quoted :: "string \<Rightarrow> string" where
  "quoted s = [CHR 0x27] @ s @ [CHR 0x27]"

definition str_exn :: "exn \<Rightarrow> string" where
  "str_exn e =
     (case e of KeyError k \<Rightarrow> quoted k | TypeError m \<Rightarrow> m | AttributeError m \<Rightarrow> m
      | ValueError m \<Rightarrow> m | IndexError m \<Rightarrow> m | RequestError m \<Rightarrow> m)"

definition bind_exn :: "exn + 'a \<Rightarrow> ('a \<Rightarrow> exn + 'b) \<Rightarrow> exn + 'b" where
  "bind_exn r f = (case r of Inl e \<Rightarrow> Inl e | Inr x \<Rightarrow> f x)"

definition type_name :: "json \<Rightarrow> string" where
  "type_name v =
     (case v of JNull \<Rightarrow> ''NoneType'' | JBool _ \<Rightarrow> ''bool'' | JInt _ \<Rightarrow> ''int''
      | JStr _ \<Rightarrow> ''str'' | JArr _ \<Rightarrow> ''list'' | JObj _ \<Rightarrow> ''dict'')"

definition py_truthy :: "json \<Rightarrow> bool" where
  "py_truthy v =
     (case v of JNull \<Rightarrow> False | JBool b \<Rightarrow> b | JInt n \<Rightarrow> n \<noteq> 0
      | JStr s \<Rightarrow> s \<noteq> [] | JArr xs \<Rightarrow> xs \<noteq> [] | JObj kvs \<Rightarrow> kvs \<noteq> [])"

definition dict_get :: "json \<Rightarrow> string \<Rightarrow> json \<Rightarrow> exn + json" where
  "dict_get v k dflt =
     (case v of
        JObj kvs \<Rightarrow> Inr (case map_of kvs k of None \<Rightarrow> dflt | Some x \<Rightarrow> x)
      | _ \<Rightarrow> Inl (AttributeError (quoted (type_name v) @ '' object has no attribute '' @ quoted ''get'')))"

definition subscript :: "json \<Rightarrow> string \<Rightarrow> exn + json" where
  "subscript v k =
     (case v of
        JObj kvs \<Rightarrow> (case map_of kvs k of None \<Rightarrow> Inl (KeyError k) | Some x \<Rightarrow> Inr x)
      | JArr _ \<Rightarrow> Inl (TypeError ''list indices must be integers or slices, not str'')
      | JStr _ \<Rightarrow> Inl (TypeError ''string indices must be integers'')
      | _ \<Rightarrow> Inl (TypeError (quoted (type_name v) @ '' object is not subscriptable'')))"

definition contains :: "string \<Rightarrow> json \<Rightarrow> exn + bool" where
  "contains k v =
     (case v of
        JObj kvs \<Rightarrow> Inr (k \<in> set (map fst kvs))
      | JArr xs \<Rightarrow> Inr (JStr k \<in> set xs)
      | JStr s \<Rightarrow> Inr (py_in k s)
      | _ \<Rightarrow> Inl (TypeError (''argument of type '' @ quoted (type_name v) @ '' is not iterable'')))"

text \<open>
  Slicing and iterating a \<open>str\<close> go by code points: a code point is a byte that is not a
  UTF-8 continuation byte, with the continuation bytes that follow it.
\<close>

definition is_continuation :: "char \<Rightarrow> bool" where
  "is_continuation c = ((of_char c :: nat) div 64 = 2)"

fun take_codepoints :: "nat \<Rightarrow> string \<Rightarrow> string" where
  "take_codepoints n [] = []"
| "take_codepoints n (c # cs) =
     (if is_continuation c then c # take_codepoints n cs
      else if n = 0 then []
      else c # take_codepoints (n - 1) cs)"

fun codepoints :: "string \<Rightarrow> string list" where
  "codepoints [] = []"
| "codepoints (c # cs) =
     (case codepoints cs of
        (d # g) # gs \<Rightarrow> if is_continuation d then (c # d # g) # gs else [c] # (d # g) # gs
      | _ \<Rightarrow> [[c]])"

definition iterate :: "json \<Rightarrow> exn + json list" where
  "iterate v =
     (case v of
        JArr xs \<Rightarrow> Inr xs
      | JObj kvs \<Rightarrow> Inr (map (\<lambda>kv. JStr (fst kv)) kvs)
      | JStr s \<Rightarrow> Inr (map JStr (codepoints s))
      | _ \<Rightarrow> Inl (TypeError (quoted (type_name v) @ '' object is not iterable'')))"

definition slice10 :: "json \<Rightarrow> exn + json" where
  "slice10 v =
     (case v of
        JStr s \<Rightarrow> Inr (JStr (take_codepoints 10 s))
      | JArr xs \<Rightarrow> Inr (JArr (take 10 xs))
      | JObj _ \<Rightarrow> Inl (TypeError (''unhashable type: '' @ quoted ''slice''))
      | _ \<Rightarrow> Inl (TypeError (quoted (type_name v) @ '' object is not subscriptable'')))"

definition hashable :: "json \<Rightarrow> bool" where
  "hashable v = (case v of JArr _ \<Rightarrow> False | JObj _ \<Rightarrow> False | _ \<Rightarrow> True)"

text \<open>A dict holds \<open>True\<close> and \<open>1\<close>, and \<open>False\<close> and \<open>0\<close>, as one key.\<close>

definition key_of :: "json \<Rightarrow> json" where
  "key_of k = (case k of JBool b \<Rightarrow> JInt (if b then 1 else 0) | _ \<Rightarrow> k)"

text \<open>
  \<open>int(s)\<close> for a \<open>str\<close>: surrounding whitespace is stripped, a sign may lead, and the
  digits may be grouped by single underscores.  (Digits and whitespace outside ASCII, and
  the limit on the number of digits, are outside the model.)
\<close>

definition is_space :: "char \<Rightarrow> bool" where
  "is_space c = (c \<in> set [CHR '' '', CHR 0x09, CHR 0x0A, CHR 0x0B, CHR 0x0C, CHR 0x0D,
                             CHR 0x1C, CHR 0x1D, CHR 0x1E, CHR 0x1F])"

definition strip :: "string \<Rightarrow> string" where
  "strip s = rev (dropWhile is_space (rev (dropWhile is_space s)))"

fun well_grouped :: "string \<Rightarrow> bool" where
  "well_grouped [] = False"
| "well_grouped [c] = is_digit c"
| "well_grouped (c # d # cs) =
     (is_digit c \<and> (if d = CHR ''_'' then well_grouped cs else well_grouped (d # cs)))"

definition decimal_value :: "string \<Rightarrow> nat" where
  "decimal_value s = foldl (\<lambda>a c. 10 * a + digit_val c) 0 (filter is_digit s)"

definition int_of_str :: "string \<Rightarrow> exn + int" where
  "int_of_str s =
     (let t = strip s;
          negative = (case t of c # _ \<Rightarrow> c = CHR ''-'' | [] \<Rightarrow> False);
          body = (case t of c # r \<Rightarrow> if c = CHR ''-'' \<or> c = CHR ''+'' then r else t | [] \<Rightarrow> t)
      in if well_grouped body
         then Inr (if negative then - int (decimal_value body) else int (decimal_value body))
         else Inl (ValueError (''invalid literal for int() with base 10: '' @ quoted s)))"

definition py_int :: "json \<Rightarrow> exn + int" where
  "py_int v =
     (case v of
        JInt n \<Rightarrow> Inr n
      | JBool b \<Rightarrow> Inr (if b then 1 else 0)
      | JStr s \<Rightarrow> int_of_str s
      | _ \<Rightarrow> Inl (TypeError (''int() argument must be a string, a bytes-like object or a real number, not ''
                              @ quoted (type_name v))))"

text \<open>
  A loop that appends to a list: each element raises, is skipped, or yields one entry.
  The first exception ends the loop.
\<close>

fun collect_results :: "('a \<Rightarrow> exn + 'b option) \<Rightarrow> 'a list \<Rightarrow> exn + 'b list" where
  "collect_results f [] = Inr []"
| "collect_results f (x # xs) =
     (case f x of
        Inl e \<Rightarrow> Inl e
      | Inr r \<Rightarrow>
          (case collect_results f xs of
             Inl e \<Rightarrow> Inl e
           | Inr ys \<Rightarrow> Inr (case r of None \<Rightarrow> ys | Some y \<Rightarrow> y # ys)))"

section \<open>The collector\<close>

text \<open>
  \<open>DataCollector\<close>.  The environment of one \<open>collect_all\<close>: the two keys read at
  construction, whether \<open>pytrends\<close> was imported, the formatted time of the call, and
  the answers of the four requests, each an exception or a decoded body.  A trends answer
  is the frame's \<open>empty\<close> flag, the rising queries of the topic (\<open>None\<close> when the topic
  has none) and the topic's column of the frame; the last two may raise when read.
  \<open>container_repr\<close> is \<open>str\<close> of a decoded list or dict.
\<close>

record trends_frame =
  empty_frame :: bool
  rising :: "exn + string list option"
  interest :: "exn + int list"

record collector_env =
  youtube_key :: "string option"
  serp_key :: "string option"
  pytrends_available :: bool
  clock :: string
  youtube_search :: "string \<Rightarrow> exn + json"
  youtube_stats :: "string \<Rightarrow> exn + json"
  trends_request :: "string \<Rightarrow> exn + trends_frame"
  serp_search :: "string \<Rightarrow> exn + json"
  container_repr :: "json \<Rightarrow> string"

text \<open>
  \<open>str(v)\<close>, as an f-string renders a decoded value.  A text field of a record holds the
  decoded value itself; the model stores its rendering, the only way the field is read.
\<close>

definition py_str :: "collector_env \<Rightarrow> json \<Rightarrow> string" where
  "py_str env v =
     (case v of
        JStr s \<Rightarrow> s
      | JInt n \<Rightarrow> str_int n
      | JBool b \<Rightarrow> if b then ''True'' else ''False''
      | JNull \<Rightarrow> ''None''
      | _ \<Rightarrow> container_repr env v)"

subsection \<open>Videos\<close>

definition candidate_id :: "json \<Rightarrow> exn + json option" where
  "candidate_id item =
     bind_exn (dict_get item ''id'' (JObj [])) (\<lambda>id_obj.
     bind_exn (contains ''videoId'' id_obj) (\<lambda>present.
     if present
     then bind_exn (subscript item ''id'') (\<lambda>id_value.
          bind_exn (subscript id_value ''videoId'') (\<lambda>vid. Inr (Some vid)))
     else Inr None))"

fun join_ids :: "nat \<Rightarrow> json list \<Rightarrow> exn + string list" where
  "join_ids i [] = Inr []"
| "join_ids i (v # vs) =
     (case v of
        JStr s \<Rightarrow> bind_exn (join_ids (Suc i) vs) (\<lambda>rest. Inr (s # rest))
      | _ \<Rightarrow> Inl (TypeError (''sequence item '' @ str_nat i @ '': expected str instance, ''
                              @ type_name v @ '' found'')))"

definition stats_entry :: "json \<Rightarrow> exn + json \<times> json" where
  "stats_entry v =
     bind_exn (subscript v ''id'') (\<lambda>k.
     bind_exn (subscript v ''statistics'') (\<lambda>statistics.
     if hashable k then Inr (key_of k, statistics)
     else Inl (TypeError (''unhashable type: '' @ quoted (type_name k)))))"

fun build_stats_map :: "json list \<Rightarrow> (json \<times> json) list \<Rightarrow> exn + (json \<times> json) list" where
  "build_stats_map [] stats_map = Inr stats_map"
| "build_stats_map (v # vs) stats_map =
     (case stats_entry v of
        Inl e \<Rightarrow> Inl e
      | Inr kv \<Rightarrow> build_stats_map vs (kv # stats_map))"

definition stats_lookup :: "(json \<times> json) list \<Rightarrow> json \<Rightarrow> exn + json" where
  "stats_lookup stats_map vid =
     (if hashable vid
      then Inr (case map_of stats_map (key_of vid) of None \<Rightarrow> JObj [] | Some st \<Rightarrow> st)
      else Inl (TypeError (''unhashable type: '' @ quoted (type_name vid))))"

definition make_video ::
  "collector_env \<Rightarrow> (json \<times> json) list \<Rightarrow> json \<Rightarrow> exn + YouTubeVideo option" where
  "make_video env stats_map item =
     bind_exn (dict_get item ''id'' (JObj [])) (\<lambda>id_obj.
     bind_exn (dict_get id_obj ''videoId'' JNull) (\<lambda>vid.
     if \<not> py_truthy vid then Inr None
     else
       bind_exn (subscript item ''snippet'') (\<lambda>snippet.
       bind_exn (stats_lookup stats_map vid) (\<lambda>stats.
       bind_exn (dict_get snippet ''title'' (JStr [])) (\<lambda>title_value.
       bind_exn (dict_get snippet ''channelTitle'' (JStr [])) (\<lambda>channel_value.
       bind_exn (dict_get stats ''viewCount'' (JInt 0)) (\<lambda>views_value.
       bind_exn (py_int views_value) (\<lambda>views.
       bind_exn (dict_get stats ''likeCount'' (JInt 0)) (\<lambda>likes_value.
       bind_exn (py_int likes_value) (\<lambda>likes.
       bind_exn (dict_get snippet ''publishedAt'' (JStr [])) (\<lambda>published_value.
       bind_exn (slice10 published_value) (\<lambda>published.
       Inr (Some \<lparr>title = py_str env title_value,
                  video_id = py_str env vid,
                  channel_name = py_str env channel_value,
                  view_count = views,
                  like_count = likes,
                  publish_date = py_str env published,
                  url = ''https://youtube.com/watch?v='' @ py_str env vid\<rparr>)))))))))))))"

definition merge_statistics ::
  "collector_env \<Rightarrow> json list \<Rightarrow> json list \<Rightarrow> exn + YouTubeVideo list" where
  "merge_statistics env stats_list item_list =
     bind_exn (build_stats_map stats_list []) (\<lambda>stats_map.
     collect_results (make_video env stats_map) item_list)"


definition youtube_body ::
  "collector_env \<Rightarrow> string \<Rightarrow> exn + YouTubeVideo list \<times> string list" where
  "youtube_body env query =
     bind_exn (youtube_search env query) (\<lambda>search_data.
     bind_exn (contains ''error'' search_data) (\<lambda>failed.
     if failed
     then bind_exn (subscript search_data ''error'') (\<lambda>err.
          bind_exn (dict_get err ''message'' (JStr ''Unknown error'')) (\<lambda>message.
          Inr ([], [''YouTube API: '' @ py_str env message])))
     else
       bind_exn (dict_get search_data ''items'' (JArr [])) (\<lambda>items.
       if \<not> py_truthy items
       then Inr ([], [''No YouTube videos found for: '' @ query])
       else
         bind_exn (iterate items) (\<lambda>item_list.
         bind_exn (collect_results candidate_id item_list) (\<lambda>video_ids.
         if video_ids = [] then Inr ([], [])
         else
           bind_exn (join_ids 0 video_ids) (\<lambda>ids.
           bind_exn (youtube_stats env (py_join '','' ids)) (\<lambda>stats_data.
           bind_exn (dict_get stats_data ''items'' (JArr [])) (\<lambda>stats_items.
           bind_exn (iterate stats_items) (\<lambda>stats_list.
           bind_exn (merge_statistics env stats_list item_list) (\<lambda>videos.
           Inr (videos, [])))))))))))"

definition fetch_youtube ::
  "collector_env \<Rightarrow> string \<Rightarrow> string list \<Rightarrow> YouTubeVideo list \<times> string list" where
  "fetch_youtube env query errs =
     (if \<not> key_set (youtube_key env) then ([], errs @ [''YOUTUBE_API_KEY not set''])
      else
        (case youtube_body env query of
           Inl e \<Rightarrow> ([], errs @ [''YouTube fetch failed: '' @ str_exn e])
         | Inr (videos, appended) \<Rightarrow> (videos, errs @ appended)))"

subsection \<open>Trends\<close>

definition mean :: "int list \<Rightarrow> real" where
  "mean xs = of_int (sum_list xs) / of_nat (length xs)"

definition trends_body ::
  "collector_env \<Rightarrow> string \<Rightarrow> exn + TrendData list \<times> string list" where
  "trends_body env topic' =
     bind_exn (trends_request env topic') (\<lambda>frame.
     if empty_frame frame then Inr ([], [''No Google Trends data for: '' @ topic'])
     else
       bind_exn (rising frame) (\<lambda>rising_column.
       let rising_queries = (case rising_column of None \<Rightarrow> [] | Some qs \<Rightarrow> take 10 qs) in
       bind_exn (interest frame) (\<lambda>series.
       if series = [] then Inl (IndexError ''single positional indexer is out-of-bounds'')
       else
         let current = last series;
             avg = mean series;
             direction = compute_direction current avg
         in Inr ([\<lparr>keyword = topic', current_interest = current, average_interest = avg,
                    trend_direction = direction, rising_queries = rising_queries\<rparr>], []))))"

definition fetch_trends ::
  "collector_env \<Rightarrow> string \<Rightarrow> string list \<Rightarrow> TrendData list \<times> string list" where
  "fetch_trends env topic' errs =
     (if \<not> pytrends_available env
      then ([], errs @ [''pytrends not installed (pip install pytrends)''])
      else
        (case trends_body env topic' of
           Inl e \<Rightarrow> ([], errs @ [''Google Trends failed: '' @ str_exn e])
         | Inr (trend_list, appended) \<Rightarrow> (trend_list, errs @ appended)))"

subsection \<open>Questions\<close>

definition question_of :: "collector_env \<Rightarrow> json \<Rightarrow> exn + string option" where
  "question_of env item =
     bind_exn (contains ''question'' item) (\<lambda>present.
     if present then bind_exn (subscript item ''question'') (\<lambda>q. Inr (Some (py_str env q)))
     else Inr None)"

definition serp_body :: "collector_env \<Rightarrow> string \<Rightarrow> exn + string list \<times> string list" where
  "serp_body env query =
     bind_exn (serp_search env query) (\<lambda>data.
     bind_exn (contains ''error'' data) (\<lambda>failed.
     if failed
     then bind_exn (subscript data ''error'') (\<lambda>err. Inr ([], [''SERP API: '' @ py_str env err]))
     else
       bind_exn (dict_get data ''related_questions'' (JArr [])) (\<lambda>related.
       bind_exn (iterate related) (\<lambda>item_list.
       bind_exn (collect_results (question_of env) item_list) (\<lambda>questions.
       Inr (questions, []))))))"

definition fetch_serp ::
  "collector_env \<Rightarrow> string \<Rightarrow> string list \<Rightarrow> string list \<times> string list" where
  "fetch_serp env query errs =
     (if \<not> key_set (serp_key env) then ([], errs @ [''SERP_API_KEY not set''])
      else
        (case serp_body env query of
           Inl e \<Rightarrow> ([], errs @ [''SERP fetch failed: '' @ str_exn e])
         | Inr (questions, appended) \<Rightarrow> (questions, errs @ appended)))"

subsection \<open>The aggregate\<close>

definition collect_all :: "collector_env \<Rightarrow> string \<Rightarrow> string \<Rightarrow> CollectedData" where
  "collect_all env topic' platform' =
     (let data = \<lparr>topic = topic', platform = platform', collected_at = clock env,
                  youtube_videos = [], trends = [], serp_questions = [], errors = []\<rparr>;
          (videos, errs) = fetch_youtube env topic' (errors data);
          data = data\<lparr>youtube_videos := videos, errors := errs\<rparr>;
          (trend_list, errs) = fetch_trends env topic' (errors data);
          data = data\<lparr>trends := trend_list, errors := errs\<rparr>;
          (questions, errs) = fetch_serp env topic' (errors data);
          data = data\<lparr>serp_questions := questions, errors := errs\<rparr>
      in data)"

section \<open>The script pipeline\<close>









text \<open>Environments used as concrete inputs.\<close>

definition no_credentials :: collector_env where
  "no_credentials =
     \<lparr>youtube_key = None, serp_key = None, pytrends_available = False,
      clock = ''2024-05-01 10:00:00'',
      youtube_search = (\<lambda>_. Inl (RequestError ''unreachable'')),
      youtube_stats = (\<lambda>_. Inl (RequestError ''unreachable'')),
      trends_request = (\<lambda>_. Inl (RequestError ''unreachable'')),
      serp_search = (\<lambda>_. Inl (RequestError ''unreachable'')),
      container_repr = (\<lambda>_. [])\<rparr>"

definition empty_serp :: collector_env where
  "empty_serp = no_credentials\<lparr>serp_key := Some ''key'', serp_search := (\<lambda>_. Inr (JObj []))\<rparr>"

definition sample_items :: "json list" where
  "sample_items =
     [JObj [(''id'', JObj [(''videoId'', JStr ''a1'')]),
            (''snippet'', JObj [(''title'', JStr ''First''), (''channelTitle'', JStr ''Ch''),
                                (''publishedAt'', JStr ''2024-03-02T10:00:00Z'')])],
      JObj [(''id'', JObj [(''kind'', JStr ''youtube#channel'')]), (''snippet'', JObj [])],
      JObj [(''id'', JObj [(''videoId'', JStr ''b2'')]),
            (''snippet'', JObj [(''title'', JStr ''Second'')])]]"

definition sample_stats :: "json list" where
  "sample_stats =
     [JObj [(''id'', JStr ''a1''),
            (''statistics'', JObj [(''viewCount'', JStr ''150000''), (''likeCount'', JStr ''1200'')])]]"

definition two_candidates :: collector_env where
  "two_candidates = no_credentials
     \<lparr>youtube_key := Some ''key'',
      youtube_search := (\<lambda>_. Inr (JObj [(''items'', JArr sample_items)])),
      youtube_stats := (\<lambda>_. Inr (JObj [(''items'', JArr sample_stats)]))\<rparr>"

definition no_video_ids :: collector_env where
  "no_video_ids = no_credentials
     \<lparr>youtube_key := Some ''key'',
      youtube_search := (\<lambda>_. Inr (JObj [(''items'',
         JArr [JObj [(''id'', JObj [(''kind'', JStr ''youtube#channel'')])]])]))\<rparr>"

definition rising_trend :: collector_env where
  "rising_trend = no_credentials
     \<lparr>pytrends_available := True,
      trends_request := (\<lambda>_. Inr \<lparr>empty_frame = False, rising = Inr (Some [''espresso machine'']),
                                    interest = Inr [20, 50, 80]\<rparr>)\<rparr>"

chapter \<open>Verification\<close>

section \<open>Usable snapshots\<close>

text \<open>
  C1.  A snapshot has data exactly when one of its three record lists is non-empty, and
  the error list plays no part: replacing it by any other list leaves the answer
  unchanged, so a snapshot with a record and with errors is usable.
\<close>

theorem has_data_iff_some_records:
  "has_data d = (youtube_videos d \<noteq> [] \<or> trends d \<noteq> [] \<or> serp_questions d \<noteq> [])
   \<and> has_data (d\<lparr>errors := es\<rparr>) = has_data d"
  by (simp add: has_data_def truthy_def)

theorem has_data_iff_some_records_witness:
  "has_data partial_snapshot \<and> errors partial_snapshot \<noteq> []
   \<and> has_data (partial_snapshot\<lparr>errors := []\<rparr>)"
  using has_data_iff_some_records [of partial_snapshot "[]"]
  by (simp add: partial_snapshot_def)

section \<open>The serialisation has the specified layout\<close>

text \<open>A loop that extends \<open>ctx\<close> appends the concatenation of what it renders.\<close>

lemma foldl_append_concat:
  "foldl (\<lambda>ctx x. ctx @ f x) acc xs = acc @ concat (map f xs)"
  by (induction xs arbitrary: acc) simp_all

lemma foldl_append_concat_pair:
  "foldl (\<lambda>ctx (i, v). ctx @ f i v) acc xs = acc @ concat (map (\<lambda>(i, v). f i v) xs)"
  by (induction xs arbitrary: acc) (simp_all add: case_prod_beta)

lemma bullet_fun: "(\<lambda>q. CHR ''-'' # CHR '' '' # q @ [NL]) = bullet"
  by (simp add: bullet_def fun_eq_iff)

lemma to_prompt_context_sections:
  "to_prompt_context d = context_by_sections d"
  by (simp add: to_prompt_context_def context_by_sections_def Let_def truthy_def
      foldl_append_concat foldl_append_concat_pair header_section_def video_section_def
      trend_section_def question_section_def error_section_def bullet_fun)













section \<open>The serialisation is a function of the snapshot\<close>



section \<open>Grounding of the rendered numbers\<close>

text \<open>
  The numbers of a text split at a separator: the scan of a text followed by a separator
  is the scan of the text, then the scan of the rest from the empty state.  Every field of
  the template is followed by a separator, so the numbers of an entry are the numbers of
  its fields and of its literal parts, in order.
\<close>

lemma scan_nums_sep:
  "is_sep c \<Longrightarrow> scan_nums cur (xs @ c # ys) = scan_nums cur xs @ scan_nums None (c # ys)"
  by (induction xs arbitrary: cur) (simp_all add: is_sep_def flush_def)

lemma sep_start_append:
  "sep_start xs \<Longrightarrow> sep_start ys \<Longrightarrow> sep_start (xs @ ys)"
  by (cases xs) (simp_all add: sep_start_def)

lemma sep_start_concat:
  "\<forall>b \<in> set bs. sep_start b \<Longrightarrow> sep_start (concat bs)"
proof (induction bs)
  case Nil
  show ?case by (simp add: sep_start_def)
next
  case (Cons b bs)
  then show ?case by (simp add: sep_start_append)
qed

text \<open>
  The decimal form of a number reads back as the number, with or without thousands
  separators, and a sign does not change the magnitude read.
\<close>

lemma scan_nums_digits:
  "\<forall>c \<in> set s. is_digit c \<or> c = CHR '','' \<Longrightarrow>
   scan_nums cur s =
     (if \<exists>c \<in> set s. is_digit c
      then [foldl (\<lambda>a c. 10 * a + digit_val c) (case cur of None \<Rightarrow> 0 | Some n \<Rightarrow> n) (filter is_digit s)]
      else flush cur)"
proof (induction s arbitrary: cur)
  case Nil
  then show ?case by simp
next
  case (Cons c s)
  show ?case
  proof (cases "c = CHR '',''")
    case True
    then have nd: "\<not> is_digit c" by (simp add: is_digit_def)
    from Cons.prems have "\<forall>c \<in> set s. is_digit c \<or> c = CHR '',''" by simp
    from Cons.IH [OF this, of cur] True nd show ?thesis by simp
  next
    case False
    with Cons.prems have d: "is_digit c" by simp
    from Cons.prems have "\<forall>c \<in> set s. is_digit c \<or> c = CHR '',''" by simp
    from Cons.IH [OF this, of "Some (push_digit cur c)"] False d show ?thesis
      by (auto simp: push_digit_def flush_def)
  qed
qed

lemma is_digit_digit_char: "is_digit (digit_char d)"
proof -
  have "d mod 10 = 0 \<or> d mod 10 = 1 \<or> d mod 10 = 2 \<or> d mod 10 = 3 \<or> d mod 10 = 4
      \<or> d mod 10 = 5 \<or> d mod 10 = 6 \<or> d mod 10 = 7 \<or> d mod 10 = 8 \<or> d mod 10 = 9"
    by presburger
  then show ?thesis
    by (elim disjE) (simp_all add: is_digit_def digit_char_def)
qed

lemma digit_val_digit_char: "digit_val (digit_char d) = d mod 10"
proof -
  have "d mod 10 = 0 \<or> d mod 10 = 1 \<or> d mod 10 = 2 \<or> d mod 10 = 3 \<or> d mod 10 = 4
      \<or> d mod 10 = 5 \<or> d mod 10 = 6 \<or> d mod 10 = 7 \<or> d mod 10 = 8 \<or> d mod 10 = 9"
    by presburger
  then show ?thesis
    by (elim disjE) (simp_all add: digit_val_def digit_char_def)
qed

lemma str_nat_digits: "c \<in> set (str_nat n) \<Longrightarrow> is_digit c"
proof (induction n rule: str_nat.induct)
  case (1 n)
  then show ?case
    by (subst (asm) str_nat.simps) (auto simp: is_digit_digit_char split: if_splits)
qed

lemma str_nat_nonempty: "str_nat n \<noteq> []"
  by (subst str_nat.simps) simp

lemma str_nat_value: "foldl (\<lambda>a c. 10 * a + digit_val c) 0 (str_nat n) = n"
proof (induction n rule: str_nat.induct)
  case (1 n)
  show ?case
  proof (cases "n < 10")
    case True
    then show ?thesis by (subst str_nat.simps) (simp add: digit_val_digit_char)
  next
    case False
    with 1 show ?thesis by (subst str_nat.simps) (simp add: digit_val_digit_char)
  qed
qed

lemma filter_digits_id: "\<forall>c \<in> set s. is_digit c \<Longrightarrow> filter is_digit s = s"
  by (induction s) simp_all

lemma numbers_in_str_nat: "numbers_in (str_nat n) = [n]"
proof -
  have d: "\<forall>c \<in> set (str_nat n). is_digit c" using str_nat_digits by blast
  then have "\<forall>c \<in> set (str_nat n). is_digit c \<or> c = CHR '',''" by blast
  moreover have "\<exists>c \<in> set (str_nat n). is_digit c"
    using d str_nat_nonempty [of n] by (cases "str_nat n") auto
  ultimately show ?thesis
    by (simp add: numbers_in_def scan_nums_digits filter_digits_id [OF d] str_nat_value)
qed

lemma insert_commas_filter:
  "filter (\<lambda>c. c \<noteq> CHR '','') (insert_commas s) = filter (\<lambda>c. c \<noteq> CHR '','') s"
proof (induction s rule: insert_commas.induct)
  case (1 s)
  show ?case
  proof (cases "length s \<le> 3")
    case True
    then show ?thesis by (subst insert_commas.simps) simp
  next
    case False
    have "filter (\<lambda>c. c \<noteq> CHR '','') (insert_commas s)
        = filter (\<lambda>c. c \<noteq> CHR '','') (take (length s - 3) s) @ filter (\<lambda>c. c \<noteq> CHR '','') (drop (length s - 3) s)"
      using False 1 by (subst insert_commas.simps) simp
    also have "\<dots> = filter (\<lambda>c. c \<noteq> CHR '','') (take (length s - 3) s @ drop (length s - 3) s)"
      by (simp only: filter_append)
    finally show ?thesis by simp
  qed
qed

lemma scan_nums_skip_commas:
  "scan_nums cur s = scan_nums cur (filter (\<lambda>c. c \<noteq> CHR '','') s)"
  by (induction s arbitrary: cur) simp_all

lemma no_comma_digits: "\<forall>c \<in> set s. is_digit c \<Longrightarrow> filter (\<lambda>c. c \<noteq> CHR '','') s = s"
  by (induction s) (auto simp: is_digit_def)

lemma numbers_in_insert_commas: "numbers_in (insert_commas (str_nat n)) = [n]"
proof -
  have "numbers_in (insert_commas (str_nat n))
      = scan_nums None (filter (\<lambda>c. c \<noteq> CHR '','') (insert_commas (str_nat n)))"
    unfolding numbers_in_def by (rule scan_nums_skip_commas)
  also have "\<dots> = scan_nums None (str_nat n)"
    using str_nat_digits by (simp add: insert_commas_filter no_comma_digits)
  finally show ?thesis using numbers_in_str_nat by (simp add: numbers_in_def)
qed

lemma numbers_in_minus: "numbers_in (CHR ''-'' # s) = numbers_in s"
  by (simp add: numbers_in_def is_digit_def flush_def)

lemma numbers_in_fmt_commas: "numbers_in (fmt_commas n) = [nat \<bar>n\<bar>]"
  by (simp add: fmt_commas_def numbers_in_minus numbers_in_insert_commas)

lemma numbers_in_str_int: "numbers_in (str_int n) = [nat \<bar>n\<bar>]"
  by (simp add: str_int_def numbers_in_minus numbers_in_str_nat)

lemma numbers_in_fmt_f0: "numbers_in (fmt_f0 x) = [nat (round_half_even \<bar>x\<bar>)]"
  by (simp add: fmt_f0_def numbers_in_minus numbers_in_str_nat)

lemma strip_commas_fmt_commas:
  "filter (\<lambda>c. c \<noteq> CHR '','') (fmt_commas n) = str_int n"
  using str_nat_digits
  by (simp add: fmt_commas_def str_int_def insert_commas_filter no_comma_digits)

lemma numbers_in_append:
  "sep_start ys \<Longrightarrow> numbers_in (xs @ ys) = numbers_in xs @ numbers_in ys"
  by (cases ys) (simp_all add: sep_start_def numbers_in_def scan_nums_sep flush_def)

lemma numbers_in_concat:
  "\<forall>b \<in> set bs. sep_start b \<Longrightarrow> numbers_in (concat bs) = concat (map numbers_in bs)"
proof (induction bs)
  case Nil
  show ?case by (simp add: numbers_in_def flush_def)
next
  case (Cons b bs)
  then show ?case by (simp add: numbers_in_append sep_start_concat)
qed

lemma scan_nums_comma_sep:
  "is_sep c \<Longrightarrow>
   scan_nums cur (xs @ CHR '','' # c # ys) = scan_nums cur xs @ scan_nums None (c # ys)"
  by (induction xs arbitrary: cur) (simp_all add: is_sep_def flush_def)

lemma numbers_in_join:
  "numbers_in (py_join '', '' qs) = concat (map numbers_in qs)"
proof (induction "'', ''" qs rule: py_join.induct)
  case 1
  show ?case by (simp add: numbers_in_def flush_def)
next
  case (2 x)
  show ?case by simp
next
  case (3 x y ys)
  have "numbers_in (x @ '', '' @ py_join '', '' (y # ys))
      = numbers_in x @ numbers_in (py_join '', '' (y # ys))"
    by (simp add: numbers_in_def scan_nums_comma_sep is_sep_def is_digit_def flush_def)
  with 3 show ?case by simp
qed

lemma scan_fields:
  "scan_nums None (str_nat n) = [n]"
  "scan_nums None (str_int i) = [nat \<bar>i\<bar>]"
  "scan_nums None (fmt_commas i) = [nat \<bar>i\<bar>]"
  "scan_nums None (fmt_f0 x) = [nat (round_half_even \<bar>x\<bar>)]"
  "scan_nums None (py_join '', '' qs) = concat (map numbers_in qs)"
  using numbers_in_str_nat [of n] numbers_in_str_int [of i] numbers_in_fmt_commas [of i]
    numbers_in_fmt_f0 [of x] numbers_in_join [of qs]
  by (simp_all add: numbers_in_def)

lemmas scan_template = scan_nums_sep is_sep_def is_digit_def flush_def push_digit_def digit_val_def

lemma numbers_in_header:
  "numbers_in (header_section d)
     = numbers_in (topic d) @ numbers_in (platform d) @ numbers_in (collected_at d)"
  by (simp add: header_section_def numbers_in_def scan_template)

lemma numbers_in_video_entry:
  "numbers_in (video_entry i v)
     = [i] @ numbers_in (title v) @ numbers_in (channel_name v)
       @ [nat \<bar>view_count v\<bar>, nat \<bar>like_count v\<bar>]
       @ numbers_in (publish_date v) @ numbers_in (url v)"
  by (simp add: video_entry_def numbers_in_def scan_template scan_fields)

lemma numbers_in_trend_entry:
  "numbers_in (trend_entry t)
     = numbers_in (keyword t)
       @ [nat \<bar>current_interest t\<bar>, 100, nat (round_half_even \<bar>average_interest t\<bar>)]
       @ numbers_in (trend_direction t)
       @ concat (map numbers_in (take 5 (rising_queries t)))"
  by (simp add: trend_entry_def numbers_in_def scan_template scan_fields truthy_def)

lemma numbers_in_bullet: "numbers_in (bullet s) = numbers_in s"
  by (simp add: bullet_def numbers_in_def scan_template)

lemma sep_start_entries:
  "sep_start (video_entry i v)" "sep_start (trend_entry t)" "sep_start (bullet s)"
  by (simp_all add: sep_start_def video_entry_def trend_entry_def bullet_def is_sep_def is_digit_def)

lemma sep_start_sections:
  "sep_start (video_section vs)" "sep_start (trend_section ts)"
  "sep_start (question_section qs)" "sep_start (error_section es)"
  by (simp_all add: sep_start_def video_section_def trend_section_def question_section_def
      error_section_def is_sep_def is_digit_def)

lemma numbers_in_video_section:
  "numbers_in (video_section vs)
     = concat (map (\<lambda>p. numbers_in (video_entry (fst p) (snd p))) (enumerate 1 (take 10 vs)))"
proof (cases "vs = []")
  case True
  then show ?thesis by (simp add: video_section_def numbers_in_def scan_template)
next
  case False
  have "numbers_in (''### TOP YOUTUBE VIDEOS (REAL):'' @ [NL]
          @ concat (map (\<lambda>(i, v). video_entry i v) (enumerate 1 (take 10 vs))))
      = numbers_in (''### TOP YOUTUBE VIDEOS (REAL):'' @ [NL])
        @ numbers_in (concat (map (\<lambda>(i, v). video_entry i v) (enumerate 1 (take 10 vs))))"
    using numbers_in_append [of "concat (map (\<lambda>(i, v). video_entry i v) (enumerate 1 (take 10 vs)))"
        "''### TOP YOUTUBE VIDEOS (REAL):'' @ [NL]"]
    by (simp add: sep_start_concat sep_start_entries case_prod_beta)
  moreover have "numbers_in (''### TOP YOUTUBE VIDEOS (REAL):'' @ [NL]) = []"
    by (simp add: numbers_in_def scan_template)
  ultimately show ?thesis using False
    by (simp add: video_section_def numbers_in_concat sep_start_entries case_prod_beta comp_def)
qed

lemma numbers_in_trend_section:
  "numbers_in (trend_section ts) = concat (map (\<lambda>t. numbers_in (trend_entry t)) ts)"
proof (cases "ts = []")
  case True
  then show ?thesis by (simp add: trend_section_def numbers_in_def scan_template)
next
  case False
  have "numbers_in (([NL] @ ''### GOOGLE TRENDS (REAL):'' @ [NL]) @ concat (map trend_entry ts))
      = numbers_in ([NL] @ ''### GOOGLE TRENDS (REAL):'' @ [NL]) @ numbers_in (concat (map trend_entry ts))"
    by (rule numbers_in_append) (simp add: sep_start_concat sep_start_entries)
  moreover have "numbers_in ([NL] @ ''### GOOGLE TRENDS (REAL):'' @ [NL]) = []"
    by (simp add: numbers_in_def scan_template)
  ultimately show ?thesis using False
    by (simp add: trend_section_def numbers_in_concat sep_start_entries comp_def)
qed

lemma numbers_in_question_section:
  "numbers_in (question_section qs) = concat (map numbers_in (take 10 qs))"
proof (cases "qs = []")
  case True
  then show ?thesis by (simp add: question_section_def numbers_in_def scan_template)
next
  case False
  have "numbers_in (([NL] @ ''### PEOPLE ALSO ASK (REAL):'' @ [NL]) @ concat (map bullet (take 10 qs)))
      = numbers_in ([NL] @ ''### PEOPLE ALSO ASK (REAL):'' @ [NL])
        @ numbers_in (concat (map bullet (take 10 qs)))"
    by (rule numbers_in_append) (simp add: sep_start_concat sep_start_entries)
  moreover have "numbers_in ([NL] @ ''### PEOPLE ALSO ASK (REAL):'' @ [NL]) = []"
    by (simp add: numbers_in_def scan_template)
  ultimately show ?thesis using False
    by (simp add: question_section_def numbers_in_concat sep_start_entries comp_def numbers_in_bullet)
qed

lemma numbers_in_error_section:
  "numbers_in (error_section es) = concat (map numbers_in es)"
proof (cases "es = []")
  case True
  then show ?thesis by (simp add: error_section_def numbers_in_def scan_template)
next
  case False
  have "numbers_in (([NL] @ ''### DATA COLLECTION ISSUES:'' @ [NL]) @ concat (map bullet es))
      = numbers_in ([NL] @ ''### DATA COLLECTION ISSUES:'' @ [NL])
        @ numbers_in (concat (map bullet es))"
    by (rule numbers_in_append) (simp add: sep_start_concat sep_start_entries)
  moreover have "numbers_in ([NL] @ ''### DATA COLLECTION ISSUES:'' @ [NL]) = []"
    by (simp add: numbers_in_def scan_template)
  ultimately show ?thesis using False
    by (simp add: error_section_def numbers_in_concat sep_start_entries comp_def numbers_in_bullet)
qed

lemma numbers_in_context:
  "numbers_in (context_by_sections d)
     = numbers_in (header_section d) @ numbers_in (video_section (youtube_videos d))
       @ numbers_in (trend_section (trends d)) @ numbers_in (question_section (serp_questions d))
       @ numbers_in (error_section (errors d))"
  by (simp add: context_by_sections_def numbers_in_append sep_start_sections sep_start_append)

lemma header_numbers_grounded:
  "k \<in> set (numbers_in (header_section d)) \<Longrightarrow> k \<in> set (snapshot_numbers d)"
  by (auto simp: numbers_in_header snapshot_numbers_def)

lemma video_numbers_grounded:
  assumes "k \<in> set (numbers_in (video_section (youtube_videos d)))"
  shows "k \<in> set (snapshot_numbers d) \<or> (1 \<le> k \<and> k \<le> min 10 (length (youtube_videos d)))"
proof -
  from assms obtain i v where iv: "(i, v) \<in> set (enumerate 1 (take 10 (youtube_videos d)))"
    and k: "k \<in> set (numbers_in (video_entry i v))"
    by (auto simp: numbers_in_video_section)
  from iv have i: "1 \<le> i \<and> i \<le> min 10 (length (youtube_videos d))"
    and v: "v \<in> set (youtube_videos d)"
    by (auto simp: in_set_enumerate_eq dest: in_set_takeD)
  from k have "k = i \<or> k \<in> set (video_numbers v)"
    by (auto simp: numbers_in_video_entry video_numbers_def)
  with i v show ?thesis
    by (auto simp: snapshot_numbers_def)
qed

lemma trend_numbers_grounded:
  assumes "k \<in> set (numbers_in (trend_section (trends d)))"
  shows "k \<in> set (snapshot_numbers d)
     \<or> (\<exists>t \<in> set (trends d). k = nat (round_half_even \<bar>average_interest t\<bar>))
     \<or> (k = 100 \<and> trends d \<noteq> [])"
proof -
  from assms obtain t where t: "t \<in> set (trends d)"
    and k: "k \<in> set (numbers_in (trend_entry t))"
    by (auto simp: numbers_in_trend_section)
  from k have "k \<in> set (trend_numbers t) \<or> k = 100
      \<or> k = nat (round_half_even \<bar>average_interest t\<bar>)"
    by (auto simp: numbers_in_trend_entry trend_numbers_def dest: in_set_takeD)
  with t show ?thesis
    by (auto simp: snapshot_numbers_def)
qed

lemma question_numbers_grounded:
  "k \<in> set (numbers_in (question_section (serp_questions d))) \<Longrightarrow> k \<in> set (snapshot_numbers d)"
  by (auto simp: numbers_in_question_section snapshot_numbers_def dest: in_set_takeD)

lemma error_numbers_grounded:
  "k \<in> set (numbers_in (error_section (errors d))) \<Longrightarrow> k \<in> set (snapshot_numbers d)"
  by (auto simp: numbers_in_error_section snapshot_numbers_def)

text \<open>
  C4, as the specification states it, fails: the average interest is formatted with
  \<open>.0f\<close>.  A trend record with interest 80 and average 49.6 is rendered as
  \<open>80/100 (avg: 50)\<close>; the snapshot holds the number 80 only.
\<close>

theorem rounded_average_not_grounded:
  "numbers_in (to_prompt_context rounded_average_snapshot) = [80, 100, 50]
   \<and> snapshot_numbers rounded_average_snapshot = [80]
   \<and> \<not> grounded rounded_average_snapshot"
  by (simp add: grounded_def numbers_in_def to_prompt_context_def rounded_average_snapshot_def
      snapshot_numbers_def trend_numbers_def whole_magnitude_def truthy_def trend_entry_def
      str_int_def str_nat.simps digit_char_def fmt_f0_def round_half_even_def flush_def
      push_digit_def digit_val_def is_digit_def)

text \<open>
  C4, amended.  Every number in the text is a number the snapshot holds, or the average
  interest of a trend record rounded to the nearest whole number (ties to even), or the
  position of a listed video (1 up to 10), or the constant 100 of the interest scale.
  Counts are rendered with all their digits: the grouped format reads back as the count,
  and without its commas it is the decimal form.
\<close>

theorem context_numbers_accounted:
  "(k \<in> set (numbers_in (to_prompt_context d)) \<longrightarrow>
      k \<in> set (snapshot_numbers d)
      \<or> (\<exists>t \<in> set (trends d). k = nat (round_half_even \<bar>average_interest t\<bar>))
      \<or> (1 \<le> k \<and> k \<le> min 10 (length (youtube_videos d)))
      \<or> (k = 100 \<and> trends d \<noteq> []))
   \<and> numbers_in (fmt_commas n) = [nat \<bar>n\<bar>]
   \<and> filter (\<lambda>c. c \<noteq> CHR '','') (fmt_commas n) = str_int n
   \<and> numbers_in (str_int n) = [nat \<bar>n\<bar>]
   \<and> numbers_in (fmt_f0 x) = [nat (round_half_even \<bar>x\<bar>)]"
proof -
  have "k \<in> set (snapshot_numbers d)
      \<or> (\<exists>t \<in> set (trends d). k = nat (round_half_even \<bar>average_interest t\<bar>))
      \<or> (1 \<le> k \<and> k \<le> min 10 (length (youtube_videos d)))
      \<or> (k = 100 \<and> trends d \<noteq> [])"
    if "k \<in> set (numbers_in (to_prompt_context d))"
  proof -
    from that have "k \<in> set (numbers_in (header_section d))
        \<or> k \<in> set (numbers_in (video_section (youtube_videos d)))
        \<or> k \<in> set (numbers_in (trend_section (trends d)))
        \<or> k \<in> set (numbers_in (question_section (serp_questions d)))
        \<or> k \<in> set (numbers_in (error_section (errors d)))"
      by (auto simp: to_prompt_context_sections numbers_in_context)
    then show ?thesis
      using header_numbers_grounded [of k d] video_numbers_grounded [of k d]
        trend_numbers_grounded [of k d] question_numbers_grounded [of k d]
        error_numbers_grounded [of k d]
      by blast
  qed
  then show ?thesis
    by (simp add: numbers_in_fmt_commas strip_commas_fmt_commas numbers_in_str_int numbers_in_fmt_f0)
qed

theorem context_numbers_accounted_witness:
  "50 \<in> set (numbers_in (to_prompt_context rounded_average_snapshot))
   \<and> 50 \<notin> set (snapshot_numbers rounded_average_snapshot)
   \<and> (\<exists>t \<in> set (trends rounded_average_snapshot). 50 = nat (round_half_even \<bar>average_interest t\<bar>))
   \<and> numbers_in (fmt_commas 150000) = [150000]
   \<and> fmt_commas 150000 = ''150,000''"
proof -
  have k: "numbers_in (to_prompt_context rounded_average_snapshot) = [80, 100, 50]"
    and s: "snapshot_numbers rounded_average_snapshot = [80]"
    by (simp_all add: numbers_in_def to_prompt_context_def rounded_average_snapshot_def
      snapshot_numbers_def trend_numbers_def whole_magnitude_def truthy_def trend_entry_def
      str_int_def str_nat.simps digit_char_def fmt_f0_def round_half_even_def flush_def
      push_digit_def digit_val_def is_digit_def)
  have r: "round_half_even \<bar>248 / 5\<bar> = 50"
    by (simp add: round_half_even_def)
  have f: "fmt_commas 150000 = ''150,000''"
    by (simp add: fmt_commas_def insert_commas.simps str_nat.simps digit_char_def)
  show ?thesis
    using context_numbers_accounted [of 50 rounded_average_snapshot 150000 0] k s r f
    by (simp add: rounded_average_snapshot_def)
qed

section \<open>The dead band of the trend direction\<close>

lemma direction_labels_distinct:
  "RISING \<noteq> DECLINING" "RISING \<noteq> STABLE" "DECLINING \<noteq> STABLE"
  "DECLINING \<noteq> RISING" "STABLE \<noteq> RISING" "STABLE \<noteq> DECLINING"
  by (simp_all add: RISING_def DECLINING_def STABLE_def)



text \<open>The average of a window of interest values is not negative.\<close>

lemma mean_nonneg: "\<forall>x \<in> set xs. 0 \<le> x \<Longrightarrow> 0 \<le> mean xs"
  by (simp add: mean_def sum_list_nonneg)

text \<open>
  The boundaries with rounded products.  An integer interest \<open>c\<close> equals 1.1 times a double
  \<open>a\<close> only for \<open>c = 11 k\<close>, \<open>a = 10 k\<close>, and 0.9 times \<open>a\<close> only for \<open>c = 9 k\<close>,
  \<open>a = 10 k\<close>.  On the interest scale these are the cases below, and the comparison in
  binary64 arithmetic answers STABLE in each.
\<close>

lemma ulp_numeral:
  "ulp (numeral k) u x =
     (if x < 2 ^ 52 * u then ulp (pred_numeral k) (u / 2) x
      else if 2 ^ 53 * u \<le> x then ulp (pred_numeral k) (2 * u) x
      else u)"
  by (simp add: numeral_eq_Suc)

lemmas binary64_eval = compute_direction_binary64_def binary64_def round_to_def round_half_even_def
  ulp_numeral

lemma binary64_factors:
  "binary64 1.1 = 4953959590107546 / 2 ^ 52" "binary64 0.9 = 8106479329266893 / 2 ^ 53"
  by (simp_all add: binary64_eval)

lemma boundaries_stable_binary64:
  "list_all (\<lambda>k. compute_direction_binary64 (11 * k) (10 * of_int k) = STABLE)
     [0, 1, 2, 3, 4, 5, 6, 7, 8, 9]"
  "list_all (\<lambda>k. compute_direction_binary64 (9 * k) (10 * of_int k) = STABLE)
     [0, 1, 2, 3, 4, 5, 6, 7, 8, 9, 10, 11]"
  by (simp_all add: binary64_eval binary64_factors direction_labels_distinct)

section \<open>Classification of crew errors\<close>

lemma lower_char_not_upper: "lower_char c \<noteq> CHR ''A''"
proof (cases "map_of (zip ''ABCDEFGHIJKLMNOPQRSTUVWXYZ'' ''abcdefghijklmnopqrstuvwxyz'') c")
  case None
  then show ?thesis by (auto simp: lower_char_def split: if_splits)
next
  case (Some l)
  then show ?thesis by (auto simp: lower_char_def split: if_splits)
qed

lemma py_in_needs_head: "py_in (x # xs) s \<Longrightarrow> x \<in> set s"
  by (induction s) (auto simp: prefix_def)

lemma api_key_check_dead: "\<not> py_in ''API key'' (py_lower s)"
proof
  assume "py_in ''API key'' (py_lower s)"
  then have "CHR ''A'' \<in> set (py_lower s)" by (rule py_in_needs_head)
  then obtain x where "lower_char x = CHR ''A''" by (auto simp: py_lower_def)
  with lower_char_not_upper show False by blast
qed

lemma py_in_sublist: "py_in needle s \<longleftrightarrow> sublist needle s"
  by (induction s) (simp_all add: sublist_Cons_right)

lemma crew_error_status:
  "status_code (handle_crew_error e) = 503 \<longleftrightarrow>
     py_in ''authentication_error'' e \<or> py_in ''invalid x-api-key'' e \<or> py_in ''401'' e
     \<or> py_in ''ANTHROPIC_API_KEY is required'' e"
  by (simp add: handle_crew_error_def api_key_check_dead)

lemma crew_error_generic:
  "status_code (handle_crew_error e) \<noteq> 503 \<Longrightarrow>
   handle_crew_error e
     = \<lparr>status_code = 500,
        detail = ''An error occurred while processing your request. Please check the service configuration.''\<rparr>"
  by (simp add: handle_crew_error_def split: if_splits)

text \<open>
  C8.  The handler lowers the text and then looks for \<open>API key\<close>, which has capitals: the
  test never succeeds.  A text about a missing API key that holds none of the other four
  markers gets the generic response.
\<close>

theorem api_key_error_gets_generic_response:
  "handle_crew_error ''Missing API key for provider anthropic''
     = \<lparr>status_code = 500,
        detail = ''An error occurred while processing your request. Please check the service configuration.''\<rparr>
   \<and> py_in ''api key'' (py_lower ''Missing API key for provider anthropic'')
   \<and> \<not> py_in ''API key'' (py_lower e)"
proof -
  have "handle_crew_error ''Missing API key for provider anthropic''
     = \<lparr>status_code = 500,
        detail = ''An error occurred while processing your request. Please check the service configuration.''\<rparr>"
    by (simp add: handle_crew_error_def py_lower_def lower_char_def)
  moreover have "py_in ''api key'' (py_lower ''Missing API key for provider anthropic'')"
    by (simp add: py_lower_def lower_char_def)
  ultimately show ?thesis
    using api_key_check_dead [of e] by simp
qed

section \<open>The engagement estimate stays within its bounds\<close>





section \<open>Concrete runs of the collector\<close>

text \<open>
  The collector on the sample environments: no credential at all, a question search that
  answers with an empty object, a video search whose items have no video identifier, and
  a video search with two videos, of which the statistics know one.
\<close>

lemmas env_simps = no_credentials_def empty_serp_def two_candidates_def no_video_ids_def key_set_def
lemmas json_simps = bind_exn_def contains_def subscript_def dict_get_def iterate_def py_truthy_def
  hashable_def key_of_def type_name_def py_str_def slice10_def is_continuation_def

lemma empty_serp_value: "fetch_serp empty_serp ''espresso'' [] = ([], [])"
  by (simp add: fetch_serp_def serp_body_def env_simps json_simps)

lemma no_video_ids_value: "fetch_youtube no_video_ids ''espresso'' [] = ([], [])"
  by (simp add: fetch_youtube_def youtube_body_def candidate_id_def env_simps json_simps)


lemma empty_serp_snapshot: "collect_all empty_serp ''espresso'' ''youtube''
   = \<lparr>topic = ''espresso'', platform = ''youtube'', collected_at = ''2024-05-01 10:00:00'',
      youtube_videos = [], trends = [], serp_questions = [],
      errors = [''YOUTUBE_API_KEY not set'', ''pytrends not installed (pip install pytrends)'']\<rparr>"
  by (simp add: collect_all_def fetch_youtube_def fetch_trends_def fetch_serp_def serp_body_def
      env_simps json_simps)

lemmas int_simps = py_int_def int_of_str_def strip_def is_space_def decimal_value_def digit_val_def
  is_digit_def

lemma sample_merge_value: "merge_statistics env sample_stats sample_items
   = Inr [\<lparr>title = ''First'', video_id = ''a1'', channel_name = ''Ch'', view_count = 150000,
           like_count = 1200, publish_date = ''2024-03-02'',
           url = ''https://youtube.com/watch?v=a1''\<rparr>,
          \<lparr>title = ''Second'', video_id = ''b2'', channel_name = [], view_count = 0,
           like_count = 0, publish_date = [], url = ''https://youtube.com/watch?v=b2''\<rparr>]"
  by (simp add: merge_statistics_def sample_stats_def sample_items_def stats_entry_def
      make_video_def stats_lookup_def json_simps int_simps)

lemma two_candidates_value: "fetch_youtube two_candidates ''espresso'' []
   = ([\<lparr>title = ''First'', video_id = ''a1'', channel_name = ''Ch'', view_count = 150000,
           like_count = 1200, publish_date = ''2024-03-02'',
           url = ''https://youtube.com/watch?v=a1''\<rparr>,
          \<lparr>title = ''Second'', video_id = ''b2'', channel_name = [], view_count = 0,
           like_count = 0, publish_date = [], url = ''https://youtube.com/watch?v=b2''\<rparr>], [])"
proof -
  have ids: "collect_results candidate_id sample_items = Inr [JStr ''a1'', JStr ''b2'']"
    by (simp add: sample_items_def candidate_id_def json_simps)
  have ne: "sample_items \<noteq> []"
    by (simp add: sample_items_def)
  show ?thesis
    by (simp add: fetch_youtube_def youtube_body_def env_simps json_simps sample_merge_value ids ne)
qed

section \<open>Merging statistics onto the search items\<close>


lemma collect_results_origin:
  "collect_results f xs = Inr ys \<Longrightarrow> y \<in> set ys \<Longrightarrow> \<exists>x \<in> set xs. f x = Inr (Some y)"
  by (induction xs arbitrary: ys) (auto split: sum.splits option.splits)








lemma bind_exn_Inr: "bind_exn r f = Inr y \<longleftrightarrow> (\<exists>x. r = Inr x \<and> f x = Inr y)"
  by (cases r) (simp_all add: bind_exn_def)










section \<open>Errors reported by the provider clients\<close>

text \<open>
  What the three clients do report.  A missing credential or library, an exception of
  the request or of the reading of its answer, an answer that carries an error, and an
  empty answer of the video search or of the trends request each append one string and
  give the empty list.  No client appends more than one string, and a client that
  appends one returns the empty list.
\<close>

lemma missing_credential_reported:
  "\<not> key_set (youtube_key env) \<Longrightarrow>
     fetch_youtube env q errs = ([], errs @ [''YOUTUBE_API_KEY not set''])"
  "\<not> pytrends_available env \<Longrightarrow>
     fetch_trends env q errs = ([], errs @ [''pytrends not installed (pip install pytrends)''])"
  "\<not> key_set (serp_key env) \<Longrightarrow>
     fetch_serp env q errs = ([], errs @ [''SERP_API_KEY not set''])"
  by (simp_all add: fetch_youtube_def fetch_trends_def fetch_serp_def)

lemma exception_reported:
  "key_set (youtube_key env) \<Longrightarrow> youtube_body env q = Inl e \<Longrightarrow>
     fetch_youtube env q errs = ([], errs @ [''YouTube fetch failed: '' @ str_exn e])"
  "pytrends_available env \<Longrightarrow> trends_body env q = Inl e \<Longrightarrow>
     fetch_trends env q errs = ([], errs @ [''Google Trends failed: '' @ str_exn e])"
  "key_set (serp_key env) \<Longrightarrow> serp_body env q = Inl e \<Longrightarrow>
     fetch_serp env q errs = ([], errs @ [''SERP fetch failed: '' @ str_exn e])"
  by (simp_all add: fetch_youtube_def fetch_trends_def fetch_serp_def)

lemma request_exception_raised:
  "youtube_search env q = Inl e \<Longrightarrow> youtube_body env q = Inl e"
  "trends_request env q = Inl e \<Longrightarrow> trends_body env q = Inl e"
  "serp_search env q = Inl e \<Longrightarrow> serp_body env q = Inl e"
  by (simp_all add: youtube_body_def trends_body_def serp_body_def bind_exn_def)

lemma empty_answer_reported:
  "key_set (youtube_key env) \<Longrightarrow> youtube_search env q = Inr (JObj [(''items'', JArr [])]) \<Longrightarrow>
     fetch_youtube env q errs = ([], errs @ [''No YouTube videos found for: '' @ q])"
  "pytrends_available env \<Longrightarrow> trends_request env q = Inr frame \<Longrightarrow> empty_frame frame \<Longrightarrow>
     fetch_trends env q errs = ([], errs @ [''No Google Trends data for: '' @ q])"
  by (simp_all add: fetch_youtube_def youtube_body_def fetch_trends_def trends_body_def
      bind_exn_def contains_def dict_get_def py_truthy_def)

lemma serp_body_appended:
  "serp_body env q = Inr (qs, appended) \<Longrightarrow> appended = [] \<or> (\<exists>e. appended = [e] \<and> qs = [])"
  by (auto simp: serp_body_def bind_exn_Inr split: if_splits)

lemma trends_body_appended:
  "trends_body env q = Inr (ts, appended) \<Longrightarrow> appended = [] \<or> (\<exists>e. appended = [e] \<and> ts = [])"
  by (auto simp: trends_body_def bind_exn_Inr Let_def split: if_splits)

lemma youtube_body_appended:
  "youtube_body env q = Inr (vs, appended) \<Longrightarrow> appended = [] \<or> (\<exists>e. appended = [e] \<and> vs = [])"
  by (auto simp: youtube_body_def bind_exn_Inr split: if_splits)

lemma fetch_appends_at_most_one:
  "fetch_youtube env q errs = (vs, errs1) \<Longrightarrow> errs1 = errs \<or> (\<exists>e. errs1 = errs @ [e] \<and> vs = [])"
  "fetch_trends env q errs = (ts, errs2) \<Longrightarrow> errs2 = errs \<or> (\<exists>e. errs2 = errs @ [e] \<and> ts = [])"
  "fetch_serp env q errs = (qs, errs3) \<Longrightarrow> errs3 = errs \<or> (\<exists>e. errs3 = errs @ [e] \<and> qs = [])"
  using youtube_body_appended [of env q] trends_body_appended [of env q] serp_body_appended [of env q]
  by (auto simp: fetch_youtube_def fetch_trends_def fetch_serp_def split: if_splits sum.splits prod.splits)

text \<open>
  C3.  The question client reports nothing when the search answers without an error and
  without related questions: it returns the empty list and leaves the accumulator as it
  was.  The video client does the same when no search item has a video identifier.  With
  such an answer and the other two providers failing, the snapshot has no data and two
  errors for three providers.
\<close>

theorem empty_answer_reports_no_error:
  "fetch_serp empty_serp ''espresso'' [] = ([], [])
   \<and> fetch_youtube no_video_ids ''espresso'' [] = ([], [])
   \<and> collect_all empty_serp ''espresso'' ''youtube''
       = \<lparr>topic = ''espresso'', platform = ''youtube'', collected_at = ''2024-05-01 10:00:00'',
          youtube_videos = [], trends = [], serp_questions = [],
          errors = [''YOUTUBE_API_KEY not set'',
                    ''pytrends not installed (pip install pytrends)'']\<rparr>"
  by (simp add: empty_serp_value no_video_ids_value empty_serp_snapshot)

section \<open>The pipeline refuses an unusable snapshot\<close>



end
